theory Spec2Isabelle
  imports Complex_Main "HOL-Library.Multiset"
begin

section \<open>JavaScript values\<close>

text \<open>
  A JavaScript number is a finite double, NaN or one of the two infinities. Every finite
  double is a rational, so the finite numbers are modelled by \<open>rat\<close> (a superset of the
  doubles; \<open>-0\<close> and \<open>+0\<close> are one value, as they are for \<open>===\<close> and for \<open>Set\<close>).
\<close>

datatype number = Fin rat | NaN | PosInf | NegInf

text \<open>Error values: \<open>throw Error(msg)\<close> and the engine's own \<open>TypeError\<close>.\<close>

datatype error = Error string | TypeError string

text \<open>
  The instances of the library's classes, with the fields their constructors set. An
  instance of \<open>SW\<close> is its \<open>getProps()\<close>: type, relays and key.
\<close>

record Icon =
  icon_url :: string

record Image =
  image_url :: string

record Input =
  input_label :: string

record Button =
  button_index :: number
  button_label :: string
  button_type :: string
  button_url :: string

record SW =
  sw_type :: string
  sw_relaySet :: "string list"
  sw_secretKey :: string

text \<open>
  The values a caller can pass: the primitives, arrays, plain objects (the fields in
  order; a field is read at its first entry), and the instances of the library's classes.
  A string is a list of 8-bit characters, one for each code unit. Functions are not among
  the values: no claim passes one.
\<close>

datatype jsval =
    JUndefined
  | JNull
  | JBool bool
  | JNum number
  | JStr string
  | JArr "jsval list"
  | JObj "(string \<times> jsval) list"
  | JIcon Icon
  | JImage Image
  | JInput Input
  | JButton Button
  | JSW SW
  | JSWComponentsSet jsval

text \<open>JavaScript's truthiness: what \<open>!v\<close> and \<open>v || w\<close> test.\<close>

fun truthy :: "jsval \<Rightarrow> bool" where
  "truthy JUndefined = False"
| "truthy JNull = False"
| "truthy (JBool b) = b"
| "truthy (JNum n) = (n \<noteq> Fin 0 \<and> n \<noteq> NaN)"
| "truthy (JStr s) = (s \<noteq> [])"
| "truthy _ = True"

text \<open>\<open>s.startsWith(p)\<close> on strings.\<close>

definition startsWith :: "string \<Rightarrow> string \<Rightarrow> bool" where
  "startsWith s p = (take (length p) s = p)"

text \<open>The objects \<open>{status: false, msg: ...}\<close> and \<open>{status: true}\<close> the validators return.\<close>

record check =
  status :: bool
  msg :: "string option"

definition failed :: "string \<Rightarrow> check" where
  "failed m = \<lparr>status = False, msg = Some m\<rparr>"

definition passed :: check where
  "passed = \<lparr>status = True, msg = None\<rparr>"

section \<open>Field validators\<close>

subsection \<open>Regular expressions\<close>

text \<open>
  \<open>emailAddrRegex.test\<close> needs a matcher. A regular expression over character classes is
  matched by derivatives; \<open>^ ... $\<close> without flags anchors the match to the whole string.
\<close>

datatype rx = Empty | Eps | Cls string | Seq rx rx | Alt rx rx | Star rx

fun nullable :: "rx \<Rightarrow> bool" where
  "nullable Empty = False"
| "nullable Eps = True"
| "nullable (Cls cs) = False"
| "nullable (Seq r s) = (nullable r \<and> nullable s)"
| "nullable (Alt r s) = (nullable r \<or> nullable s)"
| "nullable (Star r) = True"

fun deriv :: "char \<Rightarrow> rx \<Rightarrow> rx" where
  "deriv c Empty = Empty"
| "deriv c Eps = Empty"
| "deriv c (Cls cs) = (if c \<in> set cs then Eps else Empty)"
| "deriv c (Seq r s) =
     (if nullable r then Alt (Seq (deriv c r) s) (deriv c s) else Seq (deriv c r) s)"
| "deriv c (Alt r s) = Alt (deriv c r) (deriv c s)"
| "deriv c (Star r) = Seq (deriv c r) (Star r)"

fun rx_test :: "rx \<Rightarrow> string \<Rightarrow> bool" where
  "rx_test r [] = nullable r"
| "rx_test r (c # cs) = rx_test (deriv c r) cs"

definition Plus :: "rx \<Rightarrow> rx" where
  "Plus r = Seq r (Star r)"

definition alnum :: string where
  "alnum = ''abcdefghijklmnopqrstuvwxyzABCDEFGHIJKLMNOPQRSTUVWXYZ0123456789''"

definition alpha :: string where
  "alpha = ''abcdefghijklmnopqrstuvwxyzABCDEFGHIJKLMNOPQRSTUVWXYZ''"

text \<open>\<open>/^[a-zA-Z0-9._%+-]+@[a-zA-Z0-9.-]+\.[a-zA-Z]{2,}$/\<close>\<close>

definition emailAddrRegex :: rx where
  "emailAddrRegex =
     Seq (Plus (Cls (alnum @ ''._%+-'')))
       (Seq (Cls ''@'')
         (Seq (Plus (Cls (alnum @ ''.-'')))
           (Seq (Cls ''.'')
             (Seq (Cls alpha) (Seq (Cls alpha) (Star (Cls alpha)))))))"

text \<open>
  \<open>regex.test(v)\<close> converts \<open>v\<close> to a string first. Of the values that are not strings
  only an array can give a string with an \<open>@\<close>: an array is its elements joined by commas
  (no class of the expression has the comma), \<open>undefined\<close> and \<open>null\<close> inside it are
  empty, and the text of a number, a boolean or an object has no \<open>@\<close>.
\<close>

fun emailAddrRegex_test :: "jsval \<Rightarrow> bool" where
  "emailAddrRegex_test (JStr s) = rx_test emailAddrRegex s"
| "emailAddrRegex_test (JArr [v]) = emailAddrRegex_test v"
| "emailAddrRegex_test _ = False"

subsection \<open>isTitleValid\<close>

fun isTitleValid :: "jsval \<Rightarrow> bool" where
  "isTitleValid (JStr s) = True"
| "isTitleValid _ = False"

subsection \<open>isURLValid\<close>

text \<open>
  \<open>url.startsWith(p)\<close> on any value: only a string has the method. On \<open>undefined\<close> and
  \<open>null\<close> the property read throws, on every other value the call of \<open>undefined\<close> does.
\<close>

fun url_startsWith :: "jsval \<Rightarrow> string \<Rightarrow> error + bool" where
  "url_startsWith (JStr s) p = Inr (startsWith s p)"
| "url_startsWith JUndefined p =
     Inl (TypeError ''Cannot read properties of undefined (reading startsWith)'')"
| "url_startsWith JNull p =
     Inl (TypeError ''Cannot read properties of null (reading startsWith)'')"
| "url_startsWith _ p = Inl (TypeError ''url.startsWith is not a function'')"

text \<open>\<open>a || b\<close> where either side may throw: \<open>b\<close> is evaluated only when \<open>a\<close> is false.\<close>

definition orelse :: "error + bool \<Rightarrow> error + bool \<Rightarrow> error + bool" where
  "orelse a b = (case a of Inl e \<Rightarrow> Inl e | Inr True \<Rightarrow> Inr True | Inr False \<Rightarrow> b)"

text \<open>\<open>a && b\<close> likewise, \<open>a\<close> a plain boolean.\<close>

definition andalso :: "bool \<Rightarrow> error + bool \<Rightarrow> error + bool" where
  "andalso a b = (if a then b else Inr False)"

definition negate :: "error + bool \<Rightarrow> error + bool" where
  "negate a = (case a of Inl e \<Rightarrow> Inl e | Inr b \<Rightarrow> Inr (\<not> b))"

text \<open>
  \<open>url.length > 32\<close>. It is read only after \<open>url.startsWith\<close> has answered true, so
  only on a string.
\<close>

fun url_length_gt :: "jsval \<Rightarrow> nat \<Rightarrow> bool" where
  "url_length_gt (JStr s) n = (n < length s)"
| "url_length_gt _ n = False"

definition isURLValid :: "jsval \<Rightarrow> jsval \<Rightarrow> error + check" where
  "isURLValid url type =
    (case andalso (\<not> truthy type \<or> type \<in> set [JStr ''redirect'', JStr ''post'', JStr ''app''])
            (negate (orelse (url_startsWith url ''https://'')
                    (orelse (url_startsWith url ''http://'')
                            (url_startsWith url ''data:image/''))))
     of Inl e \<Rightarrow> Inl e
      | Inr True \<Rightarrow> Inr (failed ''Invalid URL'')
      | Inr False \<Rightarrow>
    (case andalso (type = JStr ''nostr'')
            (negate (orelse (url_startsWith url ''nostr:'')
                    (orelse (url_startsWith url ''npub'')
                    (orelse (url_startsWith url ''nprofile'')
                    (orelse (url_startsWith url ''note1'')
                    (orelse (url_startsWith url ''nevent'')
                            (url_startsWith url ''naddr'')))))))
     of Inl e \<Rightarrow> Inl e
      | Inr True \<Rightarrow> Inr (failed ''Invalid nostr URL schema'')
      | Inr False \<Rightarrow>
    (case andalso (type = JStr ''zap'')
            (negate (orelse (Inr (emailAddrRegex_test url))
                    (orelse (case url_startsWith url ''lnurl'' of Inl e \<Rightarrow> Inl e
                                | Inr b \<Rightarrow> Inr (b \<and> url_length_gt url 32))
                            (case url_startsWith url ''lnbc'' of Inl e \<Rightarrow> Inl e
                                | Inr b \<Rightarrow> Inr (b \<and> url_length_gt url 32)))))
     of Inl e \<Rightarrow> Inl e
      | Inr True \<Rightarrow>
          Inr (failed ''Invalid zap URL, it must be a valid email address, lnurl* address or an lnbc* invoice'')
      | Inr False \<Rightarrow> Inr passed)))"

section \<open>Components\<close>

text \<open>\<open>throw Error(check.msg)\<close>: the message of a failed check.\<close>

definition msg_of :: "check \<Rightarrow> string" where
  "msg_of c = (case msg c of Some m \<Rightarrow> m | None \<Rightarrow> [])"

text \<open>
  The constructors. A constructor that throws creates no object: the result is the error.
  \<open>new Icon(url)\<close> and \<open>new Image(url)\<close> hand \<open>url\<close> to \<open>isURLValid\<close> unchecked; when
  the check has passed, \<open>url\<close> is a string (lemma \<open>isURLValid_not_string\<close> below), so the
  last branch of each is never taken.
\<close>

definition new_Icon :: "jsval \<Rightarrow> error + Icon" where
  "new_Icon url =
    (case isURLValid url JUndefined of
       Inl e \<Rightarrow> Inl e
     | Inr checkURL \<Rightarrow>
         if \<not> status checkURL then Inl (Error (msg_of checkURL))
         else (case url of JStr u \<Rightarrow> Inr \<lparr>icon_url = u\<rparr>
               | _ \<Rightarrow> Inl (TypeError ''url.startsWith is not a function'')))"

definition new_Image :: "jsval \<Rightarrow> error + Image" where
  "new_Image url =
    (case isURLValid url JUndefined of
       Inl e \<Rightarrow> Inl e
     | Inr checkURL \<Rightarrow>
         if \<not> status checkURL then Inl (Error (msg_of checkURL))
         else (case url of JStr u \<Rightarrow> Inr \<lparr>image_url = u\<rparr>
               | _ \<Rightarrow> Inl (TypeError ''url.startsWith is not a function'')))"

definition new_Input :: "jsval \<Rightarrow> error + Input" where
  "new_Input label =
    (case label of
       JStr l \<Rightarrow> if l = [] then Inl (Error ''Image url is required'') else Inr \<lparr>input_label = l\<rparr>
     | _ \<Rightarrow> Inl (Error ''Image url is required''))"

definition new_Button :: "jsval \<Rightarrow> jsval \<Rightarrow> jsval \<Rightarrow> jsval \<Rightarrow> error + Button" where
  "new_Button index label type url =
    (case index of
       JNum n \<Rightarrow>
         if n = Fin 0 then Inl (Error ''Button index must be an integer greater than 0'')
         else
    (case label of
       JStr l \<Rightarrow>
         if l = [] then Inl (Error ''Button label is required'')
         else
    (case type of
       JStr t \<Rightarrow>
         if t \<notin> set [''nostr'', ''zap'', ''redirect'', ''post'', ''app'']
         then Inl (Error ''Button type must be one these values (redirect | nostr | zap | post | app)'')
         else
    (case url of
       JStr u \<Rightarrow>
         if u = [] then Inl (Error ''Button url is required'')
         else
    (case isURLValid url type of
       Inl e \<Rightarrow> Inl e
     | Inr checkURL \<Rightarrow>
         if \<not> status checkURL then Inl (Error (msg_of checkURL))
         else Inr \<lparr>button_index = n, button_label = l, button_type = t, button_url = u\<rparr>)
     | _ \<Rightarrow> Inl (Error ''Button url is required''))
     | _ \<Rightarrow> Inl (Error ''Button type must be one these values (redirect | nostr | zap | post | app)''))
     | _ \<Rightarrow> Inl (Error ''Button label is required''))
     | _ \<Rightarrow> Inl (Error ''Button index must be an integer greater than 0''))"

section \<open>Arrays: \<open>Set\<close>, \<open>sort\<close>, \<open>every\<close>\<close>

text \<open>
  \<open>[...new Set(arr)]\<close>: the elements are added one by one, an element already in the set
  is skipped, and the set keeps the order of insertion.
\<close>

fun Set_add_all :: "'a list \<Rightarrow> 'a list \<Rightarrow> 'a list" where
  "Set_add_all seen [] = seen"
| "Set_add_all seen (x # xs) = Set_add_all (if x \<in> set seen then seen else seen @ [x]) xs"

definition new_Set :: "'a list \<Rightarrow> 'a list" where
  "new_Set arr = Set_add_all [] arr"

text \<open>
  \<open>a - b\<close> on numbers. On finite doubles the difference has the sign of the exact
  difference (it may round, or overflow to an infinity of that sign), and \<open>sort\<close> reads
  only the sign.
\<close>

fun num_sub :: "number \<Rightarrow> number \<Rightarrow> number" where
  "num_sub (Fin a) (Fin b) = Fin (a - b)"
| "num_sub NaN _ = NaN"
| "num_sub _ NaN = NaN"
| "num_sub PosInf PosInf = NaN"
| "num_sub NegInf NegInf = NaN"
| "num_sub PosInf _ = PosInf"
| "num_sub NegInf _ = NegInf"
| "num_sub (Fin a) PosInf = NegInf"
| "num_sub (Fin a) NegInf = PosInf"

fun positive :: "number \<Rightarrow> bool" where
  "positive (Fin q) = (0 < q)"
| "positive PosInf = True"
| "positive _ = False"

text \<open>
  \<open>arr.sort(cmp)\<close> is stable, and orders \<open>x\<close> after \<open>y\<close> when \<open>cmp(x, y) > 0\<close> (a NaN from
  \<open>cmp\<close> counts as 0). With a comparator that is not consistent (NaN or an infinity
  among the keys) the engine chooses the order; the model is the stable insertion sort,
  which is one such choice.
\<close>

fun insort_cmp :: "('a \<Rightarrow> 'a \<Rightarrow> number) \<Rightarrow> 'a \<Rightarrow> 'a list \<Rightarrow> 'a list" where
  "insort_cmp cmp x [] = [x]"
| "insort_cmp cmp x (y # ys) =
     (if positive (cmp x y) then y # insort_cmp cmp x ys else x # y # ys)"

definition js_sort :: "('a \<Rightarrow> 'a \<Rightarrow> number) \<Rightarrow> 'a list \<Rightarrow> 'a list" where
  "js_sort cmp xs = foldr (insort_cmp cmp) xs []"

text \<open>\<open>arr.every((x, i) => p(x, i))\<close>, the index counted from \<open>i\<close>.\<close>

fun every :: "('a \<Rightarrow> nat \<Rightarrow> bool) \<Rightarrow> nat \<Rightarrow> 'a list \<Rightarrow> bool" where
  "every p i [] = True"
| "every p i (x # xs) = (p x i \<and> every p (Suc i) xs)"

section \<open>Component set validator\<close>

definition isConsecutiveArray :: "number list \<Rightarrow> bool" where
  "isConsecutiveArray arr =
    (let sorted = js_sort (\<lambda>a b. num_sub a b) (new_Set arr) in
     if length sorted > 6 then False
     else length sorted = length arr
        \<and> (case sorted of [] \<Rightarrow> False | x # _ \<Rightarrow> x = Fin 1)
        \<and> every (\<lambda>num i. num = Fin (of_nat i + 1)) 0 sorted)"

text \<open>
  The loop over the components, filling the five arrays \<open>icons\<close>, \<open>images\<close>, \<open>inputs\<close>,
  \<open>buttons\<close> (the indexes) and \<open>buttonTypes\<close>; \<open>None\<close> is the early return at an element
  that is no instance of the four component classes.
\<close>

type_synonym tally = "Icon list \<times> Image list \<times> Input list \<times> number list \<times> string list"

fun scan :: "jsval list \<Rightarrow> tally \<Rightarrow> tally option" where
  "scan [] t = Some t"
| "scan (JIcon c # cs) (icons, images, inputs, buttons, buttonTypes) =
     scan cs (icons @ [c], images, inputs, buttons, buttonTypes)"
| "scan (JImage c # cs) (icons, images, inputs, buttons, buttonTypes) =
     scan cs (icons, images @ [c], inputs, buttons, buttonTypes)"
| "scan (JInput c # cs) (icons, images, inputs, buttons, buttonTypes) =
     scan cs (icons, images, inputs @ [c], buttons, buttonTypes)"
| "scan (JButton c # cs) (icons, images, inputs, buttons, buttonTypes) =
     scan cs (icons, images, inputs, buttons @ [button_index c], buttonTypes @ [button_type c])"
| "scan (_ # cs) t = None"

definition isSWComponentsSetValid :: "jsval \<Rightarrow> jsval \<Rightarrow> check" where
  "isSWComponentsSetValid instance type =
    (case instance of
       JArr comps \<Rightarrow>
         if length comps = 0 then failed ''The components array must be a non empty array''
         else
          (let isDefault = (type \<notin> set [JStr ''action'', JStr ''tool'']) in
           case scan comps ([], [], [], [], []) of
             None \<Rightarrow> failed ''One or more elements are not a smart widget components''
           | Some (icons, images, inputs, buttons, buttonTypes) \<Rightarrow>
               if length images = 0 then failed ''An image component is required''
               else if length images > 1 then
                 failed ''The number of image components has exceeded the allowed limit (1 max)''
               else if length icons = 0 \<and> \<not> isDefault then
                 failed ''An icon component is required for smart widgets with (action | tools) types''
               else if length icons > 1 then
                 failed ''The number of icon components has exceeded the allowed limit (1 max)''
               else if \<not> isDefault \<and> length inputs > 0 \<and> length buttons > 1
                       \<and> ''app'' \<notin> set buttonTypes then
                 failed ''Only an image and a button of app type are required for smart widgets with (action | tools) types''
               else if length inputs > 1 then
                 failed ''The number of input components has exceeded the allowed limit (1 max)''
               else if length buttons > 0 \<and> \<not> isConsecutiveArray buttons then
                 failed ''The number of button components has either exceeded the allowed limit (6 max), or has a non consecutive indexes''
               else passed)
     | _ \<Rightarrow> failed ''The components array must be a non empty array'')"

section \<open>Component set\<close>

definition new_SWComponentsSet :: "jsval \<Rightarrow> jsval \<Rightarrow> error + jsval" where
  "new_SWComponentsSet components smartWidgetInstance =
    (let type = (case smartWidgetInstance of JSW sw \<Rightarrow> JStr (sw_type sw) | _ \<Rightarrow> JStr ''basic'');
         checkComps = isSWComponentsSetValid components type
     in if \<not> status checkComps then Inl (Error (msg_of checkComps))
        else Inr (JSWComponentsSet components))"

text \<open>The objects \<open>{index, metadata}\<close> that \<open>getProps\<close> sorts.\<close>

record entry =
  index :: number
  metadata :: "string list"

text \<open>
  The loop of \<open>getProps\<close> over its four local arrays. The source pushes the icon tags and
  the image tags to the one array \<open>images\<close>; \<open>icons\<close> stays as it was.
\<close>

fun getProps_loop ::
  "jsval list \<Rightarrow> string list list \<times> string list list \<times> string list list \<times> entry list
     \<Rightarrow> string list list \<times> string list list \<times> string list list \<times> entry list" where
  "getProps_loop [] acc = acc"
| "getProps_loop (JIcon c # cs) (icons, images, inputs, buttons) =
     getProps_loop cs (icons, images @ [[''icon'', icon_url c]], inputs, buttons)"
| "getProps_loop (JImage c # cs) (icons, images, inputs, buttons) =
     getProps_loop cs (icons, images @ [[''image'', image_url c]], inputs, buttons)"
| "getProps_loop (JInput c # cs) (icons, images, inputs, buttons) =
     getProps_loop cs (icons, images, inputs @ [[''input'', input_label c]], buttons)"
| "getProps_loop (JButton c # cs) (icons, images, inputs, buttons) =
     getProps_loop cs (icons, images, inputs,
       buttons @ [\<lparr>index = button_index c,
                    metadata = [''button'', button_label c, button_type c, button_url c]\<rparr>])"
| "getProps_loop (_ # cs) acc = getProps_loop cs acc"

text \<open>
  \<open>getProps\<close> of a component set. The constructor stores arrays only (lemma
  \<open>new_SWComponentsSet_holds_array\<close> below); iterating anything else is the engine's
  TypeError.
\<close>

fun getProps :: "jsval \<Rightarrow> error + string list list" where
  "getProps (JSWComponentsSet (JArr comps)) =
     (case getProps_loop comps ([], [], [], []) of
        (icons, images, inputs, buttons) \<Rightarrow>
          Inr (icons @ images @ inputs
               @ map metadata (js_sort (\<lambda>a b. num_sub (index a) (index b)) buttons)))"
| "getProps _ = Inl (TypeError ''this.components is not iterable'')"

section \<open>Widget facade: what \<open>signEvent\<close> and \<open>publish\<close> build\<close>

record nostr_event =
  ev_kind :: nat
  ev_content :: string
  ev_tags :: "string list list"

text \<open>
  \<open>getNostrEvent\<close> up to the signature: the event handed to the signer. \<open>fresh\<close> is the
  identifier \<open>nanoid()\<close> returns.
\<close>

definition getNostrEvent ::
  "string \<Rightarrow> string list list \<Rightarrow> jsval \<Rightarrow> string \<Rightarrow> string \<Rightarrow> nostr_event" where
  "getNostrEvent content tags identifier' type fresh =
    (let identifier = (case identifier' of JStr i \<Rightarrow> if i \<noteq> [] then i else fresh | _ \<Rightarrow> fresh)
     in \<lparr>ev_kind = 30033, ev_content = content,
         ev_tags = [''d'', identifier] # [''l'', type] # tags\<rparr>)"

text \<open>
  \<open>signEvent(components, title, identifier)\<close>: the two checks, \<open>content = title || ""\<close>
  and the event.
\<close>

definition signEvent :: "SW \<Rightarrow> jsval \<Rightarrow> jsval \<Rightarrow> jsval \<Rightarrow> string \<Rightarrow> error + nostr_event" where
  "signEvent sw components title identifier fresh =
    (if \<not> isTitleValid title then Inl (Error ''The title should be an empty or valid string'')
     else case components of
       JSWComponentsSet c \<Rightarrow>
         (let content = (case title of JStr s \<Rightarrow> s | _ \<Rightarrow> []) in
          case getProps components of
            Inl e \<Rightarrow> Inl e
          | Inr tags \<Rightarrow> Inr (getNostrEvent content tags identifier (sw_type sw) fresh))
     | _ \<Rightarrow> Inl (Error ''The components should be a SWComponentsSet instance''))"

text \<open>
  \<open>publish(components, title, identifier, timeout)\<close> starts with the same checks and builds
  the same event; what follows (the relays, the confirmation) is the network client's.
\<close>

definition publish :: "SW \<Rightarrow> jsval \<Rightarrow> jsval \<Rightarrow> jsval \<Rightarrow> string \<Rightarrow> error + nostr_event" where
  "publish sw components title identifier fresh =
    (if \<not> isTitleValid title then Inl (Error ''The title should be an empty or valid string'')
     else case components of
       JSWComponentsSet c \<Rightarrow>
         (let content = (case title of JStr s \<Rightarrow> s | _ \<Rightarrow> []) in
          case getProps components of
            Inl e \<Rightarrow> Inl e
          | Inr tags \<Rightarrow> Inr (getNostrEvent content tags identifier (sw_type sw) fresh))
     | _ \<Rightarrow> Inl (Error ''The components should be a SWComponentsSet instance''))"

section \<open>Event collector\<close>

text \<open>
  A filter is an object, field name to value. The argument \<open>filter\<close> of \<open>getSubData\<close>
  (\<open>filters\<close> here) is absent (\<open>None\<close>: \<open>undefined\<close>, or any other falsy value) or an
  array of filters, as \<open>searchNostr\<close> documents it. The network client is its log of
  \<open>subscribe\<close> calls, each with the filters it was given; the options of the call are
  constants of the source.
\<close>

type_synonym nostr_filter = "(string \<times> jsval) list"

record NDK =
  subscriptions :: "nostr_filter list list"

definition subscribe :: "NDK \<Rightarrow> nostr_filter list \<Rightarrow> NDK" where
  "subscribe ndk fs = ndk\<lparr>subscriptions := subscriptions ndk @ [fs]\<rparr>"

text \<open>\<open>obj[k]\<close> (a missing field reads \<open>undefined\<close>) and \<open>delete obj[k]\<close>.\<close>

definition get_field :: "nostr_filter \<Rightarrow> string \<Rightarrow> jsval" where
  "get_field obj k = (case map_of obj k of Some v \<Rightarrow> v | None \<Rightarrow> JUndefined)"

definition delete_field :: "string \<Rightarrow> nostr_filter \<Rightarrow> nostr_filter" where
  "delete_field k obj = filter (\<lambda>kv. fst kv \<noteq> k) obj"

text \<open>The callback of \<open>filter.map\<close>.\<close>

definition strip :: "nostr_filter \<Rightarrow> nostr_filter" where
  "strip f = (let temp = f in if \<not> truthy (get_field f ''#t'') then delete_field ''#t'' temp else temp)"

record NDKEvent =
  pubkey :: string
  rawEvent :: jsval

text \<open>The object \<open>{data, pubkeys}\<close> the promise resolves with.\<close>

record subData =
  data :: "jsval list"
  pubkeys :: "string list"

text \<open>
  The state the promise's closures share: the arrays \<open>events\<close> and \<open>pubkeys\<close>, the timer
  (the time at which it fires, when one is set), the quiet period, whether \<open>sub.stop()\<close>
  has been called, and what the promise has resolved with.
\<close>

record collector =
  c_events :: "jsval list"
  c_pubkeys :: "string list"
  c_timer :: "nat option"
  c_timeout :: nat
  c_stopped :: bool
  c_resolved :: "subData option"

text \<open>\<open>startTimer\<close> at time \<open>now\<close>: the timer that was set is cleared, a new one is set.\<close>

definition startTimer :: "nat \<Rightarrow> collector \<Rightarrow> collector" where
  "startTimer now c = c\<lparr>c_timer := Some (now + c_timeout c)\<rparr>"

text \<open>The handler of \<open>sub.on("event", ...)\<close>, called at time \<open>now\<close>.\<close>

definition on_event :: "nat \<Rightarrow> NDKEvent \<Rightarrow> collector \<Rightarrow> collector" where
  "on_event now event c =
     startTimer now (c\<lparr>c_pubkeys := c_pubkeys c @ [pubkey event],
                       c_events := c_events c @ [rawEvent event]\<rparr>)"

text \<open>The timer's callback; a promise keeps its first resolution.\<close>

definition on_timer :: "collector \<Rightarrow> collector" where
  "on_timer c =
     c\<lparr>c_timer := None,
       c_stopped := True,
       c_resolved := (case c_resolved c of
                        None \<Rightarrow> Some \<lparr>data = c_events c, pubkeys = new_Set (c_pubkeys c)\<rparr>
                      | Some r \<Rightarrow> Some r)\<rparr>"

datatype outcome = Resolved subData | Pending collector

text \<open>\<open>getSubData(ndkInstance, filter, timeout)\<close>, called at time \<open>now\<close>.\<close>

definition getSubData :: "NDK \<Rightarrow> nostr_filter list option \<Rightarrow> nat \<Rightarrow> nat \<Rightarrow> outcome \<times> NDK" where
  "getSubData ndkInstance filters timeout now =
    (case filters of
       None \<Rightarrow> (Resolved \<lparr>data = [], pubkeys = []\<rparr>, ndkInstance)
     | Some fs \<Rightarrow>
         if length fs = 0 then (Resolved \<lparr>data = [], pubkeys = []\<rparr>, ndkInstance)
         else
          (let filter' = map strip fs;
               ndkInstance' = subscribe ndkInstance filter'
           in (Pending (startTimer now
                 \<lparr>c_events = [], c_pubkeys = [], c_timer = None, c_timeout = timeout,
                  c_stopped = False, c_resolved = None\<rparr>), ndkInstance')))"

text \<open>
  The event loop after \<open>getSubData\<close> has returned its promise. The relays send the events
  \<open>evs\<close>, each with its time of arrival. An event that arrives before the timer fires is
  handed to the handler; at the first event that does not, and when the relays have no
  more to send, the timer fires (when both are due, the timer goes first: the event loop
  runs its timers before it polls the network). \<open>sub.stop()\<close> ends the delivery. Time is
  counted in milliseconds.
\<close>

fun run :: "collector \<Rightarrow> (nat \<times> NDKEvent) list \<Rightarrow> collector" where
  "run c [] = (case c_timer c of Some d \<Rightarrow> on_timer c | None \<Rightarrow> c)"
| "run c ((t, e) # evs) =
     (case c_timer c of
        Some d \<Rightarrow> if d \<le> t then on_timer c else run (on_event t e c) evs
      | None \<Rightarrow> c)"

section \<open>Notions the properties are stated with\<close>

text \<open>
  None of the following is code of the library: these are the words of the specification
  (the components of each kind in a list, the rules of the validator, the tags of the
  encoder, the events a collector receives), written as functions so that the code can be
  compared with them.
\<close>

subsection \<open>The components of a list, by class\<close>

fun is_component :: "jsval \<Rightarrow> bool" where
  "is_component (JIcon c) = True"
| "is_component (JImage c) = True"
| "is_component (JInput c) = True"
| "is_component (JButton c) = True"
| "is_component _ = False"

fun icons_of :: "jsval list \<Rightarrow> Icon list" where
  "icons_of [] = []"
| "icons_of (JIcon c # cs) = c # icons_of cs"
| "icons_of (_ # cs) = icons_of cs"

fun images_of :: "jsval list \<Rightarrow> Image list" where
  "images_of [] = []"
| "images_of (JImage c # cs) = c # images_of cs"
| "images_of (_ # cs) = images_of cs"

fun inputs_of :: "jsval list \<Rightarrow> Input list" where
  "inputs_of [] = []"
| "inputs_of (JInput c # cs) = c # inputs_of cs"
| "inputs_of (_ # cs) = inputs_of cs"

fun buttons_of :: "jsval list \<Rightarrow> Button list" where
  "buttons_of [] = []"
| "buttons_of (JButton c # cs) = c # buttons_of cs"
| "buttons_of (_ # cs) = buttons_of cs"

subsection \<open>The rules of the validator\<close>

text \<open>The rational a finite number is, and whether a number is finite.\<close>

fun fin :: "number \<Rightarrow> rat" where
  "fin (Fin q) = q"
| "fin _ = 0"

fun finite_number :: "number \<Rightarrow> bool" where
  "finite_number (Fin q) = True"
| "finite_number _ = False"

text \<open>
  Rule 7 of the specification: the indexes have no duplicate, there are at most six, and
  they are the numbers 1 to N, N their count.
\<close>

definition consecutive_from_1 :: "number list \<Rightarrow> bool" where
  "consecutive_from_1 idx =
     (distinct idx \<and> length idx \<le> 6 \<and> set idx = (\<lambda>i. Fin (of_nat i)) ` {1..length idx})"

text \<open>
  Rules 1 to 6 of the specification: the list is not empty; every element is a component;
  there is exactly one image; an action or tool widget has exactly one icon, any other at
  most one; the rule on inputs and buttons without an app button does not apply; there is
  at most one input.
\<close>

definition passes_rules_1_to_6 :: "jsval list \<Rightarrow> jsval \<Rightarrow> bool" where
  "passes_rules_1_to_6 comps type =
     (comps \<noteq> [] \<and> list_all is_component comps
      \<and> length (images_of comps) = 1
      \<and> (if type = JStr ''action'' \<or> type = JStr ''tool''
         then length (icons_of comps) = 1 else length (icons_of comps) \<le> 1)
      \<and> \<not> ((type = JStr ''action'' \<or> type = JStr ''tool'') \<and> inputs_of comps \<noteq> []
             \<and> length (buttons_of comps) > 1
             \<and> ''app'' \<notin> set (map button_type (buttons_of comps)))
      \<and> length (inputs_of comps) \<le> 1)"

subsection \<open>The tags of the encoder\<close>

fun icon_image_tags :: "jsval list \<Rightarrow> string list list" where
  "icon_image_tags [] = []"
| "icon_image_tags (JIcon c # cs) = [''icon'', icon_url c] # icon_image_tags cs"
| "icon_image_tags (JImage c # cs) = [''image'', image_url c] # icon_image_tags cs"
| "icon_image_tags (_ # cs) = icon_image_tags cs"

fun input_tags :: "jsval list \<Rightarrow> string list list" where
  "input_tags [] = []"
| "input_tags (JInput c # cs) = [''input'', input_label c] # input_tags cs"
| "input_tags (_ # cs) = input_tags cs"

definition button_tag :: "Button \<Rightarrow> string list" where
  "button_tag b = [''button'', button_label b, button_type b, button_url b]"

subsection \<open>The events a collector receives\<close>

text \<open>
  Of the events \<open>evs\<close> the relays send, those that reach the handler: the events up to the
  first that arrives when the timer, due at \<open>d\<close>, has fired. \<open>in_time\<close> says that none
  does: every event arrives less than the quiet period after the one before it.
\<close>

fun received :: "nat \<Rightarrow> nat \<Rightarrow> (nat \<times> NDKEvent) list \<Rightarrow> NDKEvent list" where
  "received timeout d [] = []"
| "received timeout d ((t, e) # evs) =
     (if d \<le> t then [] else e # received timeout (t + timeout) evs)"

fun in_time :: "nat \<Rightarrow> nat \<Rightarrow> (nat \<times> NDKEvent) list \<Rightarrow> bool" where
  "in_time timeout d [] = True"
| "in_time timeout d ((t, e) # evs) = (t < d \<and> in_time timeout (t + timeout) evs)"

subsection \<open>Sample components\<close>

definition sample_image :: jsval where
  "sample_image = JImage \<lparr>image_url = ''https://example.com/a.png''\<rparr>"

definition sample_icon :: jsval where
  "sample_icon = JIcon \<lparr>icon_url = ''https://example.com/i.png''\<rparr>"

definition sample_input :: jsval where
  "sample_input = JInput \<lparr>input_label = ''Your name''\<rparr>"

definition sample_button :: "rat \<Rightarrow> string \<Rightarrow> jsval" where
  "sample_button i t =
     JButton \<lparr>button_index = Fin i, button_label = ''Go'', button_type = t,
              button_url = ''https://example.com''\<rparr>"

section \<open>Properties\<close>

lemmas sample_defs = sample_image_def sample_icon_def sample_input_def sample_button_def

subsection \<open>The title validator\<close>

text \<open>
  C6. The claim: the title validator passes \<open>undefined\<close>, the empty string and every
  string, so that \<open>publish\<close> and \<open>signEvent\<close> accept an omitted title. The code tests
  \<open>typeof title !== "string"\<close> alone: at \<open>undefined\<close> the validator answers false, and both
  methods throw before they build anything.
\<close>

theorem isTitleValid_rejects_undefined:
  "isTitleValid JUndefined = False
   \<and> signEvent sw components JUndefined identifier fresh
       = Inl (Error ''The title should be an empty or valid string'')
   \<and> publish sw components JUndefined identifier fresh
       = Inl (Error ''The title should be an empty or valid string'')"
  by (simp add: signEvent_def publish_def)

subsection \<open>The URL validator\<close>

lemma orelse_Inr: "orelse (Inr a) (Inr b) = Inr (a \<or> b)"
  by (simp add: orelse_def split: bool.splits)

lemma negate_Inr: "negate (Inr a) = Inr (\<not> a)"
  by (simp add: negate_def)

lemma andalso_Inr: "andalso a (Inr b) = Inr (a \<and> b)"
  by (simp add: andalso_def)

text \<open>
  C8, as stated: for every url and every context the validator returns a result and never
  throws. It fails at the url \<open>undefined\<close> with no context: \<open>isURLValid(undefined)\<close>, which
  is what \<open>new Icon()\<close> calls, reads \<open>url.startsWith\<close> and throws a TypeError.
\<close>

theorem isURLValid_throws_on_undefined:
  "isURLValid JUndefined JUndefined
     = Inl (TypeError ''Cannot read properties of undefined (reading startsWith)'')
   \<and> new_Icon JUndefined
     = Inl (TypeError ''Cannot read properties of undefined (reading startsWith)'')"
  by (simp add: new_Icon_def isURLValid_def andalso_def orelse_def negate_def)

text \<open>
  C8, amended: for every url that is a string and every context (any value), the validator
  returns a result and does not throw; the result has the flag \<open>status\<close>, and the reason
  \<open>msg\<close> exactly when \<open>status\<close> is false.
\<close>

theorem isURLValid_total_on_strings:
  "\<exists>c. isURLValid (JStr u) type = Inr c \<and> (status c = (msg c = None))"
  by (simp add: isURLValid_def orelse_Inr negate_Inr andalso_Inr failed_def passed_def
      split: bool.splits)

text \<open>A lightning invoice of ten characters, in the context \<open>zap\<close>: a result, invalid.\<close>

theorem isURLValid_total_on_strings_witness:
  "\<exists>c. isURLValid (JStr ''lnbc1abcde'') (JStr ''zap'') = Inr c \<and> (status c = (msg c = None))"
  by (rule isURLValid_total_on_strings)

text \<open>
  What is not a string never passes \<open>isURLValid\<close> without a context, so \<open>new Icon\<close> and
  \<open>new Image\<close> store strings only.
\<close>

lemma isURLValid_not_string:
  assumes "\<forall>u. url \<noteq> JStr u"
  shows "\<exists>e. isURLValid url JUndefined = Inl e"
  using assms by (cases url) (simp_all add: isURLValid_def andalso_def orelse_def negate_def)

subsection \<open>The Button constructor\<close>

text \<open>
  C7. The claim: no Button is created with an index that is not an integer of at least 1.
  The constructor refuses what is not a number and the number 0, nothing else: with the
  index -1, and with the index 3/2, it returns the Button.
\<close>

theorem new_Button_accepts_bad_index:
  "new_Button (JNum (Fin (- 1))) (JStr ''Go'') (JStr ''redirect'') (JStr ''https://example.com'')
     = Inr \<lparr>button_index = Fin (- 1), button_label = ''Go'', button_type = ''redirect'',
            button_url = ''https://example.com''\<rparr>
   \<and> new_Button (JNum (Fin (3 / 2))) (JStr ''Go'') (JStr ''redirect'') (JStr ''https://example.com'')
     = Inr \<lparr>button_index = Fin (3 / 2), button_label = ''Go'', button_type = ''redirect'',
            button_url = ''https://example.com''\<rparr>"
  by (simp add: new_Button_def isURLValid_def andalso_def orelse_def negate_def startsWith_def
      passed_def)

subsection \<open>Arrays\<close>

lemma set_Set_add_all: "set (Set_add_all seen xs) = set seen \<union> set xs"
  by (induction xs arbitrary: seen) auto

lemma length_Set_add_all_le: "length (Set_add_all seen xs) \<le> length seen + length xs"
proof (induction xs arbitrary: seen)
  case Nil
  then show ?case by simp
next
  case (Cons x xs)
  show ?case using Cons [of seen] Cons [of "seen @ [x]"] by auto
qed

lemma length_Set_add_all_eq:
  "(length (Set_add_all seen xs) = length seen + length xs)
     = (distinct xs \<and> set seen \<inter> set xs = {})"
proof (induction xs arbitrary: seen)
  case Nil
  then show ?case by simp
next
  case (Cons x xs)
  show ?case
  proof (cases "x \<in> set seen")
    case True
    then show ?thesis using length_Set_add_all_le [of seen xs] by auto
  next
    case False
    then show ?thesis using Cons [of "seen @ [x]"] by auto
  qed
qed

lemma Set_add_all_distinct:
  "distinct xs \<Longrightarrow> set seen \<inter> set xs = {} \<Longrightarrow> Set_add_all seen xs = seen @ xs"
  by (induction xs arbitrary: seen) auto

lemma set_new_Set: "set (new_Set xs) = set xs"
  by (simp add: new_Set_def set_Set_add_all)

lemma mset_insort_cmp: "mset (insort_cmp cmp x xs) = add_mset x (mset xs)"
  by (induction xs) auto

lemma mset_js_sort: "mset (js_sort cmp xs) = mset xs"
  by (induction xs) (auto simp: js_sort_def mset_insort_cmp)

lemma set_js_sort: "set (js_sort cmp xs) = set xs"
  using mset_js_sort [of cmp xs] by (metis set_mset_mset)

lemma length_js_sort: "length (js_sort cmp xs) = length xs"
  using mset_js_sort [of cmp xs] by (metis size_mset)

text \<open>On finite keys the comparator \<open>a - b\<close> is the order of the rationals.\<close>

lemma positive_num_sub:
  "finite_number a \<Longrightarrow> finite_number b \<Longrightarrow> positive (num_sub a b) = (\<not> fin a \<le> fin b)"
  by (cases a; cases b) auto

lemma insort_cmp_finite:
  "finite_number (k x) \<Longrightarrow> list_all (\<lambda>y. finite_number (k y)) ys \<Longrightarrow>
     insort_cmp (\<lambda>a b. num_sub (k a) (k b)) x ys = insort_key (\<lambda>a. fin (k a)) x ys"
  by (induction ys) (auto simp: positive_num_sub)

lemma js_sort_finite:
  "list_all (\<lambda>y. finite_number (k y)) xs \<Longrightarrow>
     js_sort (\<lambda>a b. num_sub (k a) (k b)) xs = sort_key (\<lambda>a. fin (k a)) xs"
proof (induction xs)
  case Nil
  then show ?case by (simp add: js_sort_def)
next
  case (Cons x xs)
  then have "js_sort (\<lambda>a b. num_sub (k a) (k b)) xs = sort_key (\<lambda>a. fin (k a)) xs" by simp
  moreover have "list_all (\<lambda>y. finite_number (k y)) (sort_key (\<lambda>a. fin (k a)) xs)"
    using Cons.prems by (simp add: list_all_iff)
  ultimately show ?case
    using Cons.prems insort_cmp_finite [of k x "sort_key (\<lambda>a. fin (k a)) xs"]
    by (simp add: js_sort_def)
qed

lemma insort_key_map: "insort_key f (g x) (map g ys) = map g (insort_key (\<lambda>a. f (g a)) x ys)"
  by (induction ys) auto

lemma sort_key_map: "sort_key f (map g xs) = map g (sort_key (\<lambda>a. f (g a)) xs)"
  by (induction xs) (auto simp: insort_key_map)

lemma every_nth: "every p k xs = (\<forall>i<length xs. p (xs ! i) (k + i))"
proof (induction xs arbitrary: k)
  case Nil
  then show ?case by simp
next
  case (Cons x xs)
  show ?case using Cons [of "Suc k"] by (auto simp: less_Suc_eq_0_disj)
qed

lemma every_eq:
  "every (\<lambda>num i. num = Fin (of_nat i + 1)) 0 xs
     = (xs = map (\<lambda>i. Fin (of_nat i)) [1..<Suc (length xs)])"
proof -
  let ?G = "\<lambda>i::nat. Fin (of_nat i + 1)"
  have "[1..<Suc (length xs)] = map Suc [0..<length xs]"
    by (simp add: map_Suc_upt)
  then have "map (\<lambda>i. Fin (of_nat i)) [1..<Suc (length xs)] = map ?G [0..<length xs]"
    by (simp add: add.commute)
  moreover have "(xs = map ?G [0..<length xs]) = (\<forall>i<length xs. xs ! i = ?G i)"
    by (subst list_eq_iff_nth_eq) simp
  moreover have "every (\<lambda>num i. num = Fin (of_nat i + 1)) 0 xs = (\<forall>i<length xs. xs ! i = ?G i)"
    by (simp add: every_nth)
  ultimately show ?thesis by (simp only:)
qed

lemma set_upt_from_1: "set [1..<Suc n] = {1..n}"
  by (simp only: set_upt atLeastLessThanSuc_atLeastAtMost)

subsection \<open>The button indexes\<close>

lemma consecutive_finite:
  assumes "consecutive_from_1 idx" and "x \<in> set idx"
  shows "finite_number x"
  using assms by (auto simp: consecutive_from_1_def)

text \<open>A list that holds the indexes 1 to N once each and is sorted is the list 1, ..., N.\<close>

lemma sorted_consecutive:
  assumes c: "consecutive_from_1 idx" and m: "mset S = mset idx" and s: "sorted (map fin S)"
  shows "S = map (\<lambda>i. Fin (of_nat i)) [1..<Suc (length idx)]"
proof (rule map_sorted_distinct_set_unique [of fin])
  let ?T = "map (\<lambda>i::nat. Fin (of_nat i)) [1..<Suc (length idx)]"
  from c have d: "distinct idx" and si: "set idx = (\<lambda>i::nat. Fin (of_nat i)) ` {1..length idx}"
    by (simp_all add: consecutive_from_1_def)
  have setS: "set S = set idx" using m by (metis set_mset_mset)
  have dS: "distinct S" using m d by (metis distinct_count_atmost_1 set_mset_mset count_mset)
  show "inj_on fin (set S \<union> set ?T)"
    using setS si by (auto simp: inj_on_def set_upt_from_1 simp del: upt_Suc)
  show "sorted (map fin S)" by (rule s)
  have "inj_on fin (set S)" using setS si by (auto simp: inj_on_def)
  then show "distinct (map fin S)" using dS by (simp add: distinct_map)
  have mt: "map fin ?T = map of_nat [1..<Suc (length idx)]" by simp
  show "sorted (map fin ?T)" unfolding mt by (simp add: sorted_map del: upt_Suc)
  show "distinct (map fin ?T)" unfolding mt by (simp add: distinct_map inj_on_def del: upt_Suc)
  show "set S = set ?T" using setS si by (simp only: set_map set_upt_from_1)
qed

text \<open>On a list that is not empty, \<open>isConsecutiveArray\<close> decides rule 7.\<close>

lemma isConsecutiveArray_iff:
  assumes "idx \<noteq> []"
  shows "isConsecutiveArray idx = consecutive_from_1 idx"
proof
  let ?S = "js_sort (\<lambda>a b. num_sub a b) (new_Set idx)"
  let ?F = "\<lambda>i::nat. Fin (of_nat i)"
  have len: "length ?S = length (new_Set idx)"
    by (rule length_js_sort)
  have setS: "set ?S = set idx"
    by (simp only: set_js_sort set_new_Set)
  {
    assume "isConsecutiveArray idx"
    then have l6: "length ?S \<le> 6" and le: "length ?S = length idx"
      and ev: "every (\<lambda>num i. num = Fin (of_nat i + 1)) 0 ?S"
      by (auto simp: isConsecutiveArray_def Let_def split: if_splits)
    from le len have "distinct idx"
      using length_Set_add_all_eq [of "[]" idx] by (simp add: new_Set_def)
    moreover from ev have "?S = map ?F [1..<Suc (length ?S)]" by (simp only: every_eq)
    then have "set ?S = ?F ` set [1..<Suc (length ?S)]" by (metis set_map)
    then have "set idx = ?F ` {1..length idx}" using setS le
      by (simp only: set_upt_from_1)
    ultimately show "consecutive_from_1 idx" using l6 le by (simp add: consecutive_from_1_def)
  }
  {
    assume c: "consecutive_from_1 idx"
    then have d: "distinct idx" and l6: "length idx \<le> 6"
      by (simp_all add: consecutive_from_1_def)
    have ns: "new_Set idx = idx"
      using d Set_add_all_distinct [of idx "[]"] by (simp add: new_Set_def)
    have "list_all (\<lambda>y. finite_number y) idx"
      using consecutive_finite [OF c] by (simp add: list_all_iff)
    then have S: "?S = sort_key (\<lambda>a. fin a) idx"
      using js_sort_finite [of "\<lambda>a. a" idx] ns by simp
    have "sorted (map fin ?S)" unfolding S by (rule sorted_sort_key)
    moreover have "mset ?S = mset idx" unfolding S by simp
    ultimately have T: "?S = map ?F [1..<Suc (length idx)]"
      using sorted_consecutive [OF c] by blast
    have ll: "length ?S = length idx" using len ns by simp
    from T ll have ev: "every (\<lambda>num i. num = Fin (of_nat i + 1)) 0 ?S"
      by (simp only: every_eq)
    have ne: "?S \<noteq> []" using ll assms by auto
    have hd1: "(case ?S of [] \<Rightarrow> False | x # _ \<Rightarrow> x = Fin 1)"
    proof (cases ?S)
      case Nil
      then show ?thesis using ne by simp
    next
      case (Cons x xs)
      then have "x = ?S ! 0" by simp
      also have "\<dots> = Fin (of_nat 0 + 1)" using ev ne by (simp only: every_nth) auto
      finally show ?thesis using Cons by simp
    qed
    show "isConsecutiveArray idx"
      using ev hd1 l6 ll by (simp add: isConsecutiveArray_def Let_def)
  }
qed

lemma consecutive_from_1_Cons: "consecutive_from_1 (x # xs) = isConsecutiveArray (x # xs)"
  using isConsecutiveArray_iff [of "x # xs"] by simp

lemma isConsecutiveArray_eval:
  "isConsecutiveArray idx =
    (let sorted = foldr (insort_cmp (\<lambda>a b. num_sub a b)) (Set_add_all [] idx) [] in
     if length sorted > 6 then False
     else length sorted = length idx
        \<and> (case sorted of [] \<Rightarrow> False | x # _ \<Rightarrow> x = Fin 1)
        \<and> every (\<lambda>num i. num = Fin (of_nat i + 1)) 0 sorted)"
  by (simp add: isConsecutiveArray_def js_sort_def new_Set_def)

subsection \<open>The component set validator\<close>

text \<open>The loop sorts the components by class, and stops at what is no component.\<close>

lemma scan_eq:
  "scan comps (a, b, c, d, e) =
     (if list_all is_component comps
      then Some (a @ icons_of comps, b @ images_of comps, c @ inputs_of comps,
                 d @ map button_index (buttons_of comps), e @ map button_type (buttons_of comps))
      else None)"
proof (induction comps arbitrary: a b c d e)
  case Nil
  then show ?case by simp
next
  case (Cons x xs)
  then show ?case by (cases x) simp_all
qed

lemma isSWComponentsSetValid_components:
  assumes "comps \<noteq> []" and "list_all is_component comps"
  shows "isSWComponentsSetValid (JArr comps) type =
    (let isDefault = (type \<notin> set [JStr ''action'', JStr ''tool'']) in
     if length (images_of comps) = 0 then failed ''An image component is required''
     else if length (images_of comps) > 1 then
       failed ''The number of image components has exceeded the allowed limit (1 max)''
     else if length (icons_of comps) = 0 \<and> \<not> isDefault then
       failed ''An icon component is required for smart widgets with (action | tools) types''
     else if length (icons_of comps) > 1 then
       failed ''The number of icon components has exceeded the allowed limit (1 max)''
     else if \<not> isDefault \<and> length (inputs_of comps) > 0 \<and> length (buttons_of comps) > 1
             \<and> ''app'' \<notin> set (map button_type (buttons_of comps)) then
       failed ''Only an image and a button of app type are required for smart widgets with (action | tools) types''
     else if length (inputs_of comps) > 1 then
       failed ''The number of input components has exceeded the allowed limit (1 max)''
     else if length (buttons_of comps) > 0
             \<and> \<not> isConsecutiveArray (map button_index (buttons_of comps)) then
       failed ''The number of button components has either exceeded the allowed limit (6 max), or has a non consecutive indexes''
     else passed)"
  using assms
  by (simp add: isSWComponentsSetValid_def scan_eq Let_def split del: if_split cong: if_cong)

lemma status_failed: "status (failed m) = False"
  by (simp add: failed_def)

lemma valid_is_array:
  assumes "status (isSWComponentsSetValid inst ty)"
  shows "\<exists>comps. inst = JArr comps"
  using assms by (cases inst) (simp_all add: isSWComponentsSetValid_def status_failed)

lemma valid_is_components:
  assumes "status (isSWComponentsSetValid (JArr comps) type)"
  shows "comps \<noteq> [] \<and> list_all is_component comps"
  using assms
  by (auto simp: isSWComponentsSetValid_def scan_eq Let_def status_failed split: if_splits)

lemma valid_buttons:
  assumes "status (isSWComponentsSetValid (JArr comps) type)" and "buttons_of comps \<noteq> []"
  shows "isConsecutiveArray (map button_index (buttons_of comps))"
proof -
  from assms(1) have c: "comps \<noteq> []" "list_all is_component comps"
    using valid_is_components by blast+
  show ?thesis
    using assms unfolding isSWComponentsSetValid_components [OF c] Let_def
    by (simp add: status_failed split: if_splits)
qed

text \<open>
  C1. A list of components with at least one Button is accepted only if the indexes of its
  Buttons have no duplicate, are at most six, and are the numbers 1 to N: deduplicated and
  sorted, they are the list 1, ..., N. Where the other six rules pass, the verdict is
  decided by that alone, and a list that fails it is rejected with the reason of the
  button rule.
\<close>

theorem validator_button_indexes:
  assumes "buttons_of comps \<noteq> []"
  shows "(status (isSWComponentsSetValid (JArr comps) type) \<longrightarrow>
           consecutive_from_1 (map button_index (buttons_of comps))
           \<and> js_sort (\<lambda>a b. num_sub a b) (new_Set (map button_index (buttons_of comps)))
               = map (\<lambda>i. Fin (of_nat i)) [1..<Suc (length (buttons_of comps))])
       \<and> (passes_rules_1_to_6 comps type \<longrightarrow>
           isSWComponentsSetValid (JArr comps) type =
             (if consecutive_from_1 (map button_index (buttons_of comps)) then passed
              else failed ''The number of button components has either exceeded the allowed limit (6 max), or has a non consecutive indexes''))"
proof (intro conjI impI)
  let ?idx = "map button_index (buttons_of comps)"
  have ne: "?idx \<noteq> []" using assms by simp
  {
    assume "status (isSWComponentsSetValid (JArr comps) type)"
    then have ic: "isConsecutiveArray ?idx" using valid_buttons assms by blast
    then show "consecutive_from_1 ?idx" using isConsecutiveArray_iff [OF ne] by simp
    from ic have "every (\<lambda>num i. num = Fin (of_nat i + 1)) 0
                    (js_sort (\<lambda>a b. num_sub a b) (new_Set ?idx))"
      and "length (js_sort (\<lambda>a b. num_sub a b) (new_Set ?idx)) = length ?idx"
      by (auto simp: isConsecutiveArray_def Let_def split: if_splits)
    then show "js_sort (\<lambda>a b. num_sub a b) (new_Set ?idx)
                 = map (\<lambda>i. Fin (of_nat i)) [1..<Suc (length (buttons_of comps))]"
      by (simp only: every_eq length_map)
  }
  {
    assume p: "passes_rules_1_to_6 comps type"
    then have c: "comps \<noteq> []" "list_all is_component comps"
      by (simp_all add: passes_rules_1_to_6_def)
    show "isSWComponentsSetValid (JArr comps) type =
             (if consecutive_from_1 ?idx then passed
              else failed ''The number of button components has either exceeded the allowed limit (6 max), or has a non consecutive indexes'')"
      using p assms
      unfolding isSWComponentsSetValid_components [OF c] Let_def isConsecutiveArray_iff [OF ne]
      by (auto simp: passes_rules_1_to_6_def split: if_splits)
  }
qed

text \<open>
  An image and the buttons 3, 1, 2 of a basic widget pass; with the indexes 1, 2, 4, with
  2, 3, 4, with 1, 1, 2 and with 1 to 7 the list is rejected, for the reason of the
  button rule.
\<close>

theorem validator_button_indexes_witness:
  "buttons_of [sample_image, sample_button 3 ''redirect'', sample_button 1 ''redirect'',
            sample_button 2 ''redirect''] \<noteq> []
   \<and> passes_rules_1_to_6 [sample_image, sample_button 3 ''redirect'', sample_button 1 ''redirect'',
            sample_button 2 ''redirect''] (JStr ''basic'')
   \<and> isSWComponentsSetValid
     (JArr [sample_image, sample_button 3 ''redirect'', sample_button 1 ''redirect'',
            sample_button 2 ''redirect'']) (JStr ''basic'') = passed
   \<and> consecutive_from_1 [Fin 3, Fin 1, Fin 2]
   \<and> js_sort (\<lambda>a b. num_sub a b) (new_Set [Fin 3, Fin 1, Fin 2]) = [Fin 1, Fin 2, Fin 3]
   \<and> isSWComponentsSetValid
     (JArr [sample_image, sample_button 1 ''redirect'', sample_button 2 ''redirect'',
            sample_button 4 ''redirect'']) (JStr ''basic'')
     = failed ''The number of button components has either exceeded the allowed limit (6 max), or has a non consecutive indexes''
   \<and> isSWComponentsSetValid
     (JArr [sample_image, sample_button 2 ''redirect'', sample_button 3 ''redirect'',
            sample_button 4 ''redirect'']) (JStr ''basic'')
     = failed ''The number of button components has either exceeded the allowed limit (6 max), or has a non consecutive indexes''
   \<and> isSWComponentsSetValid
     (JArr [sample_image, sample_button 1 ''redirect'', sample_button 1 ''redirect'',
            sample_button 2 ''redirect'']) (JStr ''basic'')
     = failed ''The number of button components has either exceeded the allowed limit (6 max), or has a non consecutive indexes''
   \<and> isSWComponentsSetValid
     (JArr [sample_image, sample_button 1 ''redirect'', sample_button 2 ''redirect'',
            sample_button 3 ''redirect'', sample_button 4 ''redirect'', sample_button 5 ''redirect'',
            sample_button 6 ''redirect'', sample_button 7 ''redirect'']) (JStr ''basic'')
     = failed ''The number of button components has either exceeded the allowed limit (6 max), or has a non consecutive indexes''"
proof -
  let ?t = "JStr ''basic''"
  note ev = sample_defs passes_rules_1_to_6_def consecutive_from_1_Cons isConsecutiveArray_eval
  have h: "buttons_of [sample_image, sample_button 3 ''redirect'', sample_button 1 ''redirect'',
            sample_button 2 ''redirect''] \<noteq> []
   \<and> passes_rules_1_to_6 [sample_image, sample_button 3 ''redirect'', sample_button 1 ''redirect'',
            sample_button 2 ''redirect''] ?t"
    by (simp add: ev)
  have p: "isSWComponentsSetValid
     (JArr [sample_image, sample_button 3 ''redirect'', sample_button 1 ''redirect'',
            sample_button 2 ''redirect'']) ?t = passed"
    using validator_button_indexes
      [of "[sample_image, sample_button 3 ''redirect'', sample_button 1 ''redirect'',
            sample_button 2 ''redirect'']" ?t]
    by (simp add: ev)
  have q: "consecutive_from_1 [Fin 3, Fin 1, Fin 2]
   \<and> js_sort (\<lambda>a b. num_sub a b) (new_Set [Fin 3, Fin 1, Fin 2]) = [Fin 1, Fin 2, Fin 3]"
    using validator_button_indexes
      [of "[sample_image, sample_button 3 ''redirect'', sample_button 1 ''redirect'',
            sample_button 2 ''redirect'']" ?t] p
    by (simp add: sample_defs passed_def)
  have 1: "isSWComponentsSetValid
     (JArr [sample_image, sample_button 1 ''redirect'', sample_button 2 ''redirect'',
            sample_button 4 ''redirect'']) ?t
     = failed ''The number of button components has either exceeded the allowed limit (6 max), or has a non consecutive indexes''"
    using validator_button_indexes
      [of "[sample_image, sample_button 1 ''redirect'', sample_button 2 ''redirect'',
            sample_button 4 ''redirect'']" ?t]
    by (simp add: ev)
  have 2: "isSWComponentsSetValid
     (JArr [sample_image, sample_button 2 ''redirect'', sample_button 3 ''redirect'',
            sample_button 4 ''redirect'']) ?t
     = failed ''The number of button components has either exceeded the allowed limit (6 max), or has a non consecutive indexes''"
    using validator_button_indexes
      [of "[sample_image, sample_button 2 ''redirect'', sample_button 3 ''redirect'',
            sample_button 4 ''redirect'']" ?t]
    by (simp add: ev)
  have 3: "isSWComponentsSetValid
     (JArr [sample_image, sample_button 1 ''redirect'', sample_button 1 ''redirect'',
            sample_button 2 ''redirect'']) ?t
     = failed ''The number of button components has either exceeded the allowed limit (6 max), or has a non consecutive indexes''"
    using validator_button_indexes
      [of "[sample_image, sample_button 1 ''redirect'', sample_button 1 ''redirect'',
            sample_button 2 ''redirect'']" ?t]
    by (simp add: ev)
  have 4: "isSWComponentsSetValid
     (JArr [sample_image, sample_button 1 ''redirect'', sample_button 2 ''redirect'',
            sample_button 3 ''redirect'', sample_button 4 ''redirect'', sample_button 5 ''redirect'',
            sample_button 6 ''redirect'', sample_button 7 ''redirect'']) ?t
     = failed ''The number of button components has either exceeded the allowed limit (6 max), or has a non consecutive indexes''"
    using validator_button_indexes
      [of "[sample_image, sample_button 1 ''redirect'', sample_button 2 ''redirect'',
            sample_button 3 ''redirect'', sample_button 4 ''redirect'', sample_button 5 ''redirect'',
            sample_button 6 ''redirect'', sample_button 7 ''redirect'']" ?t]
    by (simp add: ev)
  from h p q 1 2 3 4 show ?thesis by blast
qed

text \<open>
  C3. For an action or a tool widget whose components have passed the rules before it
  (a list that is not empty, of components only, with one image and one icon), the
  validator rejects with the reason of the app button exactly when the list has an Input,
  more than one Button, and no Button of type \<open>app\<close>.
\<close>

theorem validator_app_button_rule:
  assumes "type = JStr ''action'' \<or> type = JStr ''tool''"
    and "comps \<noteq> []" and "list_all is_component comps"
    and "length (images_of comps) = 1" and "length (icons_of comps) = 1"
  shows "(isSWComponentsSetValid (JArr comps) type =
           failed ''Only an image and a button of app type are required for smart widgets with (action | tools) types'')
       = (inputs_of comps \<noteq> [] \<and> length (buttons_of comps) > 1
          \<and> ''app'' \<notin> set (map button_type (buttons_of comps)))"
  using assms(1,4,5) unfolding isSWComponentsSetValid_components [OF assms(2,3)] Let_def
  by (auto simp: failed_def passed_def)

text \<open>
  An icon, an image, an input and two buttons, neither of type \<open>app\<close>: rejected for this
  reason as an action widget. Without the input, and with an app button, not for this
  reason.
\<close>

theorem validator_app_button_rule_witness:
  "list_all is_component [sample_icon, sample_image, sample_input, sample_button 1 ''redirect'',
            sample_button 2 ''post'']
   \<and> length (images_of [sample_icon, sample_image, sample_input, sample_button 1 ''redirect'',
            sample_button 2 ''post'']) = 1
   \<and> length (icons_of [sample_icon, sample_image, sample_input, sample_button 1 ''redirect'',
            sample_button 2 ''post'']) = 1
   \<and> isSWComponentsSetValid
     (JArr [sample_icon, sample_image, sample_input, sample_button 1 ''redirect'',
            sample_button 2 ''post'']) (JStr ''action'')
     = failed ''Only an image and a button of app type are required for smart widgets with (action | tools) types''
   \<and> isSWComponentsSetValid
     (JArr [sample_icon, sample_image, sample_button 1 ''redirect'',
            sample_button 2 ''post'']) (JStr ''tool'')
     \<noteq> failed ''Only an image and a button of app type are required for smart widgets with (action | tools) types''
   \<and> isSWComponentsSetValid
     (JArr [sample_icon, sample_image, sample_input, sample_button 1 ''redirect'',
            sample_button 2 ''app'']) (JStr ''action'')
     \<noteq> failed ''Only an image and a button of app type are required for smart widgets with (action | tools) types''"
  using validator_app_button_rule
      [of "JStr ''action''" "[sample_icon, sample_image, sample_input,
            sample_button 1 ''redirect'', sample_button 2 ''post'']"]
    validator_app_button_rule
      [of "JStr ''tool''" "[sample_icon, sample_image, sample_button 1 ''redirect'',
            sample_button 2 ''post'']"]
    validator_app_button_rule
      [of "JStr ''action''" "[sample_icon, sample_image, sample_input,
            sample_button 1 ''redirect'', sample_button 2 ''app'']"]
  by (simp add: sample_defs)

subsection \<open>The component set\<close>

text \<open>
  C10. When the second argument of \<open>new SWComponentsSet\<close> is absent, or any value that is
  not an instance of \<open>SW\<close>, the components are validated against the type \<open>basic\<close>: the
  set is created exactly when the validator accepts the components as a basic widget's.
\<close>

theorem new_SWComponentsSet_defaults_to_basic:
  assumes "\<forall>sw. smartWidgetInstance \<noteq> JSW sw"
  shows "new_SWComponentsSet components smartWidgetInstance =
    (if status (isSWComponentsSetValid components (JStr ''basic''))
     then Inr (JSWComponentsSet components)
     else Inl (Error (msg_of (isSWComponentsSetValid components (JStr ''basic'')))))"
  using assms by (cases smartWidgetInstance) (simp_all add: new_SWComponentsSet_def Let_def)

text \<open>
  At a single image, which is a valid basic widget: with no second argument, and with the
  string \<open>"action"\<close> in the place of the \<open>SW\<close> instance, the set is created, although the
  validator refuses the same components for the type \<open>action\<close> (no icon).
\<close>

theorem new_SWComponentsSet_defaults_to_basic_witness:
  "(\<forall>sw. JStr ''action'' \<noteq> JSW sw)
   \<and> new_SWComponentsSet (JArr [sample_image]) (JStr ''action'')
       = Inr (JSWComponentsSet (JArr [sample_image]))
   \<and> new_SWComponentsSet (JArr [sample_image]) JUndefined
       = Inr (JSWComponentsSet (JArr [sample_image]))
   \<and> isSWComponentsSetValid (JArr [sample_image]) (JStr ''action'')
       = failed ''An icon component is required for smart widgets with (action | tools) types''"
  using new_SWComponentsSet_defaults_to_basic [of "JStr ''action''" "JArr [sample_image]"]
        new_SWComponentsSet_defaults_to_basic [of JUndefined "JArr [sample_image]"]
  by (simp add: isSWComponentsSetValid_def passed_def sample_defs)

text \<open>Every set the constructor returns holds an array.\<close>

lemma new_SWComponentsSet_holds_array:
  assumes "new_SWComponentsSet components smartWidgetInstance = Inr s"
  shows "\<exists>comps. s = JSWComponentsSet (JArr comps)"
  using assms valid_is_array
  by (fastforce simp: new_SWComponentsSet_def Let_def split: if_splits)

lemma getProps_loop_eq:
  "getProps_loop comps (a, b, c, d) =
     (a, b @ icon_image_tags comps, c @ input_tags comps,
      d @ map (\<lambda>b. \<lparr>index = button_index b, metadata = button_tag b\<rparr>) (buttons_of comps))"
proof (induction comps arbitrary: a b c d)
  case Nil
  then show ?case by simp
next
  case (Cons x xs)
  then show ?case by (cases x) (simp_all add: button_tag_def)
qed

lemma getProps_array:
  "getProps (JSWComponentsSet (JArr comps)) =
     Inr (icon_image_tags comps @ input_tags comps
          @ map metadata (js_sort (\<lambda>a b. num_sub (index a) (index b))
              (map (\<lambda>b. \<lparr>index = button_index b, metadata = button_tag b\<rparr>) (buttons_of comps))))"
  by (simp add: getProps_loop_eq)

lemma sorted_buttons:
  assumes "consecutive_from_1 (map button_index bs)"
  shows "js_sort (\<lambda>a b. num_sub (index a) (index b))
              (map (\<lambda>b. \<lparr>index = button_index b, metadata = button_tag b\<rparr>) bs)
       = map (\<lambda>b. \<lparr>index = button_index b, metadata = button_tag b\<rparr>)
           (sort_key (\<lambda>b. fin (button_index b)) bs)"
proof -
  let ?e = "\<lambda>b. \<lparr>index = button_index b, metadata = button_tag b\<rparr>"
  have "list_all (\<lambda>y. finite_number (index y)) (map ?e bs)"
    using consecutive_finite [OF assms] by (simp add: list_all_iff)
  then have "js_sort (\<lambda>a b. num_sub (index a) (index b)) (map ?e bs)
      = sort_key (\<lambda>a. fin (index a)) (map ?e bs)"
    by (rule js_sort_finite)
  then show ?thesis by (simp add: sort_key_map)
qed

text \<open>
  C2. The tags of a validated set are: the tags of its icons and images, in the order the
  components have in the set (an image that stands before the icon keeps its place before
  it); then the tags of its inputs; then the tags of its buttons,
  sorted by index (\<open>sort_key\<close> is the library's stable sort), whose indexes in that order
  are 1, ..., N whatever their order in the set. \<open>getProps\<close> writes to its own arrays only:
  its result is a function of the set, the same at every call.
\<close>

theorem getProps_tag_order:
  assumes "new_SWComponentsSet components smartWidgetInstance = Inr s"
  shows "\<exists>comps. components = JArr comps \<and> s = JSWComponentsSet (JArr comps)
     \<and> getProps s = Inr (icon_image_tags comps @ input_tags comps
          @ map button_tag (sort_key (\<lambda>b. fin (button_index b)) (buttons_of comps)))
     \<and> map button_index (sort_key (\<lambda>b. fin (button_index b)) (buttons_of comps))
          = map (\<lambda>i. Fin (of_nat i)) [1..<Suc (length (buttons_of comps))]"
proof -
  obtain ty where v: "status (isSWComponentsSetValid components ty)"
    and s: "s = JSWComponentsSet components"
    using assms by (auto simp: new_SWComponentsSet_def Let_def split: if_splits)
  then obtain comps where c: "components = JArr comps" using valid_is_array by blast
  let ?bs = "buttons_of comps"
  let ?S = "sort_key (\<lambda>b. fin (button_index b)) ?bs"
  have "getProps s = Inr (icon_image_tags comps @ input_tags comps @ map button_tag ?S)
     \<and> map button_index ?S = map (\<lambda>i. Fin (of_nat i)) [1..<Suc (length ?bs)]"
  proof (cases "?bs = []")
    case True
    then show ?thesis by (simp add: s c getProps_array js_sort_def del: getProps.simps)
  next
    case False
    then have "isConsecutiveArray (map button_index ?bs)" using v c valid_buttons by blast
    then have k: "consecutive_from_1 (map button_index ?bs)"
      using False isConsecutiveArray_iff [of "map button_index ?bs"] by simp
    have "getProps s = Inr (icon_image_tags comps @ input_tags comps @ map button_tag ?S)"
      by (simp add: s c getProps_array sorted_buttons [OF k] comp_def del: getProps.simps)
    moreover have "map button_index ?S
        = map (\<lambda>i. Fin (of_nat i)) [1..<Suc (length (map button_index ?bs))]"
    proof (rule sorted_consecutive [OF k])
      show "mset (map button_index ?S) = mset (map button_index ?bs)" by simp
      have "map fin (map button_index ?S) = map (\<lambda>b. fin (button_index b)) ?S" by simp
      then show "sorted (map fin (map button_index ?S))" by (simp only: sorted_sort_key)
    qed
    ultimately show ?thesis by simp
  qed
  then show ?thesis using c s by simp
qed

text \<open>
  An image, an icon, the button 3, an input, the buttons 1 and 2, in this order: the set is
  created, and its tags are the image, the icon (the two in the order they have in the
  set), the input, and the buttons 1, 2, 3.
\<close>

theorem getProps_tag_order_witness:
  "new_SWComponentsSet
     (JArr [sample_image, sample_icon, sample_button 3 ''redirect'', sample_input,
            sample_button 1 ''post'', sample_button 2 ''app'']) JUndefined
     = Inr (JSWComponentsSet
         (JArr [sample_image, sample_icon, sample_button 3 ''redirect'', sample_input,
            sample_button 1 ''post'', sample_button 2 ''app'']))
   \<and> getProps (JSWComponentsSet
         (JArr [sample_image, sample_icon, sample_button 3 ''redirect'', sample_input,
            sample_button 1 ''post'', sample_button 2 ''app'']))
     = Inr [[''image'', ''https://example.com/a.png''],
            [''icon'', ''https://example.com/i.png''],
            [''input'', ''Your name''],
            [''button'', ''Go'', ''post'', ''https://example.com''],
            [''button'', ''Go'', ''app'', ''https://example.com''],
            [''button'', ''Go'', ''redirect'', ''https://example.com'']]"
proof -
  let ?c = "JArr [sample_image, sample_icon, sample_button 3 ''redirect'', sample_input,
            sample_button 1 ''post'', sample_button 2 ''app'']"
  have n: "new_SWComponentsSet ?c JUndefined = Inr (JSWComponentsSet ?c)"
    by (simp add: new_SWComponentsSet_def isSWComponentsSetValid_def sample_defs
        isConsecutiveArray_eval passed_def)
  from getProps_tag_order [OF n] have "getProps (JSWComponentsSet ?c)
     = Inr [[''image'', ''https://example.com/a.png''],
            [''icon'', ''https://example.com/i.png''],
            [''input'', ''Your name''],
            [''button'', ''Go'', ''post'', ''https://example.com''],
            [''button'', ''Go'', ''app'', ''https://example.com''],
            [''button'', ''Go'', ''redirect'', ''https://example.com'']]"
    by (simp add: sample_defs button_tag_def)
  with n show ?thesis by simp
qed

subsection \<open>The event collector\<close>

text \<open>
  C5. With the filter argument absent, or an empty array, \<open>getSubData\<close> resolves at once
  with \<open>{data: [], pubkeys: []}\<close>, and the network client has seen no \<open>subscribe\<close>: it is
  returned as it was.
\<close>

theorem getSubData_empty_filter:
  "getSubData ndk None timeout now = (Resolved \<lparr>data = [], pubkeys = []\<rparr>, ndk)
   \<and> getSubData ndk (Some []) timeout now = (Resolved \<lparr>data = [], pubkeys = []\<rparr>, ndk)"
  by (simp add: getSubData_def)

lemma map_of_delete_field:
  "map_of (delete_field k0 f) k = (if k = k0 then None else map_of f k)"
  by (induction f) (auto simp: delete_field_def)

lemma map_of_strip:
  "map_of (strip f) k =
     (if k = ''#t'' \<and> \<not> truthy (get_field f ''#t'') then None else map_of f k)"
  by (simp add: strip_def Let_def map_of_delete_field)

text \<open>
  C9, as stated: every field of a filter whose value is falsy is stripped before the
  filters are submitted. It fails at the field \<open>#p\<close> with the empty string: the filter
  reaches \<open>subscribe\<close> with the field in it.
\<close>

theorem getSubData_keeps_falsy_field:
  "\<not> truthy (JStr [])
   \<and> subscriptions (snd (getSubData \<lparr>subscriptions = []\<rparr>
        (Some [[(''kinds'', JArr [JNum (Fin 30033)]), (''#p'', JStr [])]]) 1000 0))
     = [[[(''kinds'', JArr [JNum (Fin 30033)]), (''#p'', JStr [])]]]"
  by (simp add: getSubData_def Let_def subscribe_def strip_def get_field_def delete_field_def)

text \<open>
  C9, amended: the filters are submitted in one \<open>subscribe\<close> call, one for one; a
  submitted filter has no field \<open>#t\<close> when the value of \<open>#t\<close> in the filter given is falsy
  (or the field is missing), and has every other field with the value given.
\<close>

theorem getSubData_strips_t:
  assumes "fs \<noteq> []"
  shows "\<exists>fs'. subscriptions (snd (getSubData ndk (Some fs) timeout now))
                = subscriptions ndk @ [fs']
     \<and> length fs' = length fs
     \<and> (\<forall>i<length fs. \<forall>k. map_of (fs' ! i) k =
           (if k = ''#t'' \<and> \<not> truthy (get_field (fs ! i) ''#t'') then None
            else map_of (fs ! i) k))"
  using assms by (simp add: getSubData_def Let_def subscribe_def map_of_strip)

text \<open>
  Two filters, the first with an empty string for \<open>#t\<close>, the second with a tag: the first
  is submitted without its \<open>#t\<close>, the second as it is.
\<close>

theorem getSubData_strips_t_witness:
  "subscriptions (snd (getSubData \<lparr>subscriptions = []\<rparr>
        (Some [[(''kinds'', JArr [JNum (Fin 30033)]), (''#t'', JStr [])],
               [(''#t'', JArr [JStr ''widget''])]]) 1000 0))
     = [[[(''kinds'', JArr [JNum (Fin 30033)])], [(''#t'', JArr [JStr ''widget''])]]]"
proof -
  let ?fs = "[[(''kinds'', JArr [JNum (Fin 30033)]), (''#t'', JStr [])],
               [(''#t'', JArr [JStr ''widget''])]]"
  have "?fs \<noteq> []" by simp
  from getSubData_strips_t [OF this, of "\<lparr>subscriptions = []\<rparr>" 1000 0]
  obtain fs' where
    "subscriptions (snd (getSubData \<lparr>subscriptions = []\<rparr> (Some ?fs) 1000 0)) = [fs']"
    by auto
  then show ?thesis
    by (simp add: getSubData_def Let_def subscribe_def strip_def get_field_def delete_field_def)
qed

text \<open>
  The loop, from a state with the timer set and the promise pending: the promise is
  resolved with what was collected before, followed by the events received.
\<close>

lemma run_resolves:
  assumes "c_resolved c = None" and "c_timer c = Some d"
  shows "c_resolved (run c evs)
           = Some \<lparr>data = c_events c @ map rawEvent (received (c_timeout c) d evs),
                   pubkeys = new_Set (c_pubkeys c @ map pubkey (received (c_timeout c) d evs))\<rparr>
         \<and> c_stopped (run c evs) \<and> c_timer (run c evs) = None"
  using assms
proof (induction evs arbitrary: c d)
  case Nil
  then show ?case by (simp add: on_timer_def)
next
  case (Cons x evs)
  obtain t e where x: "x = (t, e)" by (cases x)
  show ?case
  proof (cases "d \<le> t")
    case True
    then show ?thesis using Cons.prems x by (simp add: on_timer_def)
  next
    case False
    have "c_resolved (on_event t e c) = None" "c_timer (on_event t e c) = Some (t + c_timeout c)"
      using Cons.prems by (simp_all add: on_event_def startTimer_def)
    from Cons.IH [OF this] show ?thesis
      using False Cons.prems x by (simp add: on_event_def startTimer_def)
  qed
qed

lemma received_in_time: "in_time timeout d evs \<Longrightarrow> received timeout d evs = map snd evs"
  by (induction timeout d evs rule: received.induct) auto

text \<open>
  C4. With a filter list that is not empty \<open>getSubData\<close> returns a pending collector. For
  every finite sequence of events the relays send, the collector stops the subscription
  and resolves with \<open>data\<close> the raw forms of the events received, in the order of
  arrival, and \<open>pubkeys\<close> their author keys without duplicates; the events received are
  all the events sent when each arrives within the quiet period after the one before.
  The handler appends the raw form and the author key of its event, and sets the timer
  anew, to fire one quiet period after the event.
\<close>

theorem getSubData_collects:
  assumes "fs \<noteq> []"
  shows "\<exists>c. fst (getSubData ndk (Some fs) timeout now) = Pending c
     \<and> c_resolved (run c evs)
         = Some \<lparr>data = map rawEvent (received timeout (now + timeout) evs),
                 pubkeys = new_Set (map pubkey (received timeout (now + timeout) evs))\<rparr>
     \<and> c_stopped (run c evs)
     \<and> (in_time timeout (now + timeout) evs \<longrightarrow>
          received timeout (now + timeout) evs = map snd evs)
     \<and> c_events (on_event t e c') = c_events c' @ [rawEvent e]
     \<and> c_pubkeys (on_event t e c') = c_pubkeys c' @ [pubkey e]
     \<and> c_timer (on_event t e c') = Some (t + c_timeout c')"
proof -
  let ?c = "startTimer now \<lparr>c_events = [], c_pubkeys = [], c_timer = None, c_timeout = timeout,
                  c_stopped = False, c_resolved = None\<rparr>"
  have p: "fst (getSubData ndk (Some fs) timeout now) = Pending ?c"
    using assms by (simp add: getSubData_def Let_def)
  have "c_resolved ?c = None" "c_timer ?c = Some (now + timeout)" "c_timeout ?c = timeout"
    "c_events ?c = []" "c_pubkeys ?c = []"
    by (simp_all add: startTimer_def)
  with run_resolves [of ?c "now + timeout" evs]
  have "c_resolved (run ?c evs)
         = Some \<lparr>data = map rawEvent (received timeout (now + timeout) evs),
                 pubkeys = new_Set (map pubkey (received timeout (now + timeout) evs))\<rparr>
     \<and> c_stopped (run ?c evs)"
    by simp
  with p show ?thesis
    by (simp add: received_in_time on_event_def startTimer_def)
qed

text \<open>
  Three events, 100 ms apart, two of them of one author, and a quiet period of 1000 ms:
  the promise resolves with the three events and the two author keys.
\<close>

theorem getSubData_collects_witness:
  "in_time 1000 (0 + 1000)
       [(100, \<lparr>pubkey = ''alice'', rawEvent = JStr ''e1''\<rparr>),
        (200, \<lparr>pubkey = ''bob'', rawEvent = JStr ''e2''\<rparr>),
        (300, \<lparr>pubkey = ''alice'', rawEvent = JStr ''e3''\<rparr>)]
   \<and> (\<exists>c. fst (getSubData \<lparr>subscriptions = []\<rparr>
                (Some [[(''kinds'', JArr [JNum (Fin 30033)])]]) 1000 0) = Pending c
     \<and> c_resolved (run c [(100, \<lparr>pubkey = ''alice'', rawEvent = JStr ''e1''\<rparr>),
                           (200, \<lparr>pubkey = ''bob'', rawEvent = JStr ''e2''\<rparr>),
                           (300, \<lparr>pubkey = ''alice'', rawEvent = JStr ''e3''\<rparr>)])
         = Some \<lparr>data = [JStr ''e1'', JStr ''e2'', JStr ''e3''], pubkeys = [''alice'', ''bob'']\<rparr>
     \<and> c_stopped (run c [(100, \<lparr>pubkey = ''alice'', rawEvent = JStr ''e1''\<rparr>),
                           (200, \<lparr>pubkey = ''bob'', rawEvent = JStr ''e2''\<rparr>),
                           (300, \<lparr>pubkey = ''alice'', rawEvent = JStr ''e3''\<rparr>)]))"
proof -
  let ?evs = "[(100, \<lparr>pubkey = ''alice'', rawEvent = JStr ''e1''\<rparr>),
        (200, \<lparr>pubkey = ''bob'', rawEvent = JStr ''e2''\<rparr>),
        (300, \<lparr>pubkey = ''alice'', rawEvent = JStr ''e3''\<rparr>)]"
  have i: "in_time 1000 (0 + 1000) ?evs" by simp
  have "[[(''kinds'', JArr [JNum (Fin 30033)])]] \<noteq> []" by simp
  from getSubData_collects [OF this, of "\<lparr>subscriptions = []\<rparr>" 1000 0 ?evs]
  obtain c where
    "fst (getSubData \<lparr>subscriptions = []\<rparr> (Some [[(''kinds'', JArr [JNum (Fin 30033)])]]) 1000 0)
       = Pending c"
    and "c_resolved (run c ?evs)
         = Some \<lparr>data = map rawEvent (received 1000 (0 + 1000) ?evs),
                 pubkeys = new_Set (map pubkey (received 1000 (0 + 1000) ?evs))\<rparr>"
    and "c_stopped (run c ?evs)"
    by blast
  then have "\<exists>c. fst (getSubData \<lparr>subscriptions = []\<rparr>
                (Some [[(''kinds'', JArr [JNum (Fin 30033)])]]) 1000 0) = Pending c
     \<and> c_resolved (run c ?evs)
         = Some \<lparr>data = [JStr ''e1'', JStr ''e2'', JStr ''e3''], pubkeys = [''alice'', ''bob'']\<rparr>
     \<and> c_stopped (run c ?evs)"
    by (intro exI [of _ c]) (simp add: new_Set_def del: run.simps)
  with i show ?thesis by blast
qed

end
